theory Spec2Isabelle
  imports Main
begin

section \<open>Errors and results\<close>

text \<open>
  The exceptions of the two modules. \<open>Error\<close> is the plain JavaScript \<^verbatim>\<open>Error(msg)\<close>,
  \<open>ForbiddenAccess\<close> and \<open>UnsupportedError\<close> are the platform's typed errors
  (\<^verbatim>\<open>ForbiddenAccess()\<close> may be raised without a message), and \<open>Thrown\<close> stands for any
  exception raised inside a collaborator (the search engine, the file storage, the
  middleware, \<^verbatim>\<open>JSON.parse\<close>).
\<close>

datatype error =
    Error string
  | ForbiddenAccess "string option"
  | UnsupportedError string
  | Thrown string

text \<open>Sequencing of two computations that may throw: the first exception wins.\<close>

definition and_then :: "error + 'a \<Rightarrow> ('a \<Rightarrow> error + 'b) \<Rightarrow> error + 'b" where
  "and_then r f = (case r of Inl e \<Rightarrow> Inl e | Inr x \<Rightarrow> f x)"

text \<open>A \<^verbatim>\<open>void\<close> call of a collaborator: \<open>None\<close> when it returns, \<open>Some e\<close> when it throws.\<close>

definition outcome :: "error option \<Rightarrow> error + unit" where
  "outcome r = (case r of None \<Rightarrow> Inr () | Some e \<Rightarrow> Inl e)"

section \<open>Filter groups\<close>

text \<open>
  The value that \<^verbatim>\<open>JSON.parse\<close> yields on a serialized filter group. A filter's \<^verbatim>\<open>key\<close>
  is either a string or an array of strings; the code calls \<^verbatim>\<open>key.includes(..)\<close> on it,
  which is a substring test on the former and a membership test on the latter, and
  compares it with \<^verbatim>\<open>===\<close>, which only a string can satisfy.
\<close>

datatype filter_key = KeyString string | KeyArray "string list"

record filter_entry =
  key :: filter_key
  "values" :: "string list"
  operator :: "string option"
  filter_mode :: "string option"

datatype filter_group =
  FilterGroup (mode: "string option") (filters: "filter_entry list option")
    (filterGroups: "filter_group list")

section \<open>Collaborators shared by the two modules\<close>

text \<open>
  \<^verbatim>\<open>JSON.parse\<close>, which throws on a string that is not JSON, and \<^verbatim>\<open>now()\<close> of
  \<^verbatim>\<open>utils/format\<close>, the current time as a string.
\<close>

record platform_env =
  JSON_parse :: "string \<Rightarrow> error + filter_group"
  now :: string

text \<open>
  \<^verbatim>\<open>s ? JSON.parse(s) : null\<close> (retention manager, source line 40) and
  \<^verbatim>\<open>s ? JSON.parse(s) : undefined\<close> (background tasks, source line 168): an absent or
  empty string is falsy and is not parsed.
\<close>

definition parse_filters ::
  "'z platform_env_scheme \<Rightarrow> string option \<Rightarrow> error + filter_group option" where
  "parse_filters env fs =
     (case fs of
        None \<Rightarrow> Inr None
      | Some s \<Rightarrow> if s = [] then Inr None else and_then (JSON_parse env s) (\<lambda>j. Inr (Some j)))"

section \<open>The retention manager\<close>

subsection \<open>Data\<close>

record work =
  status :: string

text \<open>
  A node of a paginated result. \<open>element_id\<close> is the node's \<^verbatim>\<open>id\<close>. Nodes of the
  knowledge indices carry no \<^verbatim>\<open>uploadStatus\<close> and no \<^verbatim>\<open>works\<close>, hence the options;
  an entry of \<^verbatim>\<open>works\<close> may itself be null (the code reads \<^verbatim>\<open>work?.status\<close>).
\<close>

record element =
  element_id :: string
  internal_id :: string
  entity_type :: "string option"
  updated_at :: string
  uploadStatus :: "string option"
  works :: "work option list option"

record edge =
  node :: element

record page_info =
  globalCount :: int

record paginated =
  edges :: "edge list"
  pageInfo :: page_info

record retention_rule =
  rule_id :: string
  rule_name :: string
  max_retention :: int
  retention_unit :: "string option"
  rule_filters :: "string option"
  rule_scope :: string

record patch =
  last_execution_date :: string
  remaining_count :: int
  last_deleted_count :: nat

subsection \<open>Effects\<close>

text \<open>
  Everything \<^verbatim>\<open>executeProcessing\<close> does to the outside is recorded, in order, in a trace:
  the log lines, every call of a deletion collaborator with the identifier it was given
  and whether it threw, and the call of \<^verbatim>\<open>patchAttribute\<close> (always on
  \<^verbatim>\<open>ENTITY_TYPE_RETENTION_RULE\<close>) with the patch it was given.
\<close>

datatype debug_message =
    Executing_rule string
  | Clearing_elements nat
  | Deleting_after string string

datatype event =
    LogDebug debug_message
  | LogError error string string
  | DeleteElementById string "string option" bool "error option"
  | DeleteFile string "error option"
  | PatchAttribute string patch "error option"

type_synonym world = "event list"

text \<open>
  The collaborators and the configuration. What a collaborator answers may depend on
  all that happened before (a cascading deletion can make a later one fail), so each
  takes the trace so far. \<open>'m\<close> is the type of moments, \<open>'q\<close> the type of query options.
\<close>

record ('m, 'q) retention_env = platform_env +
  RETENTION_BATCH_SIZE :: nat
  utcDate :: 'm
  subtract :: "'m \<Rightarrow> int \<Rightarrow> string \<Rightarrow> 'm"
  toISOString :: "'m \<Rightarrow> string"
  humanDuration :: "string \<Rightarrow> string"
  convertFiltersToQueryOptions :: "filter_group option \<Rightarrow> 'm \<Rightarrow> error + 'q"
  elPaginate :: "world \<Rightarrow> 'q \<Rightarrow> nat \<Rightarrow> error + paginated"
  paginatedForPathWithEnrichment :: "world \<Rightarrow> string \<Rightarrow> nat \<Rightarrow> string \<Rightarrow> error + paginated"
  deleteElementById :: "world \<Rightarrow> string \<Rightarrow> string option \<Rightarrow> error option"
  deleteFile :: "world \<Rightarrow> string \<Rightarrow> error option"
  patchAttribute :: "world \<Rightarrow> string \<Rightarrow> patch \<Rightarrow> error option"

subsection \<open>deleteElement\<close>

definition scope_not_existing :: "string \<Rightarrow> error" where
  "scope_not_existing scope =
     Error (''[Retention manager] Scope '' @ scope @ '' not existing for Retention Rule.'')"

definition deleteElement ::
  "('m, 'q) retention_env \<Rightarrow> world \<Rightarrow> string \<Rightarrow> string \<Rightarrow> string option
     \<Rightarrow> (error + unit) \<times> world" where
  "deleteElement env w scope nodeId nodeEntityType =
     (if scope = ''knowledge'' then
        (let r = deleteElementById env w nodeId nodeEntityType
         in (outcome r, w @ [DeleteElementById nodeId nodeEntityType True r]))
      else if scope = ''file'' \<or> scope = ''workbench'' then
        (let r = deleteFile env w nodeId
         in (outcome r, w @ [DeleteFile nodeId r]))
      else (Inl (scope_not_existing scope), w))"

subsection \<open>getElementsToDelete\<close>

text \<open>The predicate of the \<^verbatim>\<open>filter\<close> call on the edges (source lines 63 and 64).\<close>

definition work_is_complete :: "work option \<Rightarrow> bool" where
  "work_is_complete wk = (case wk of None \<Rightarrow> False | Some x \<Rightarrow> status x = ''complete'')"

definition edge_is_complete :: "edge \<Rightarrow> bool" where
  "edge_is_complete e =
     (uploadStatus (node e) = Some ''complete''
      \<and> list_all work_is_complete (case works (node e) of None \<Rightarrow> [] | Some ws \<Rightarrow> ws))"

definition getElementsToDelete ::
  "('m, 'q) retention_env \<Rightarrow> world \<Rightarrow> string \<Rightarrow> 'm \<Rightarrow> string option \<Rightarrow> error + paginated" where
  "getElementsToDelete env w scope before_moment fs =
     and_then
       (if scope = ''knowledge'' then
          and_then (parse_filters env fs) (\<lambda>jsonFilters.
          and_then (convertFiltersToQueryOptions env jsonFilters before_moment) (\<lambda>queryOptions.
          elPaginate env w queryOptions (RETENTION_BATCH_SIZE env)))
        else if scope = ''file'' then
          paginatedForPathWithEnrichment env w ''import/global''
            (RETENTION_BATCH_SIZE env) (toISOString env before_moment)
        else if scope = ''workbench'' then
          paginatedForPathWithEnrichment env w ''import/pending''
            (RETENTION_BATCH_SIZE env) (toISOString env before_moment)
        else Inl (scope_not_existing scope))
       (\<lambda>result.
          if scope = ''file'' \<or> scope = ''knowledge''
          then Inr (result\<lparr>edges := filter edge_is_complete (edges result)\<rparr>)
          else Inr result)"

subsection \<open>executeProcessing\<close>

text \<open>The identifier handed to \<^verbatim>\<open>deleteElement\<close> for a node (source line 83).\<close>

definition delete_target :: "string \<Rightarrow> element \<Rightarrow> string" where
  "delete_target scope nd = (if scope = ''knowledge'' then internal_id nd else element_id nd)"

text \<open>
  The \<^verbatim>\<open>for\<close> loop over the elements (source lines 78 to 88): an exception of
  \<^verbatim>\<open>deleteElement\<close> is caught and logged, and the loop goes on.
\<close>

fun delete_loop :: "('m, 'q) retention_env \<Rightarrow> string \<Rightarrow> edge list \<Rightarrow> world \<Rightarrow> world" where
  "delete_loop env scope [] w = w"
| "delete_loop env scope (e # es) w =
     (let nd = node e;
          humanized = humanDuration env (updated_at nd)
      in case deleteElement env w scope (delete_target scope nd) (entity_type nd) of
           (Inr _, w') \<Rightarrow>
             delete_loop env scope es (w' @ [LogDebug (Deleting_after (element_id nd) humanized)])
         | (Inl err, w') \<Rightarrow>
             delete_loop env scope es (w' @ [LogError err (element_id nd) ''RETENTION_MANAGER'']))"

definition cutoff :: "('m, 'q) retention_env \<Rightarrow> retention_rule \<Rightarrow> 'm" where
  "cutoff env rule =
     subtract env (utcDate env) (max_retention rule)
       (case retention_unit rule of None \<Rightarrow> ''days'' | Some u \<Rightarrow> u)"

definition executeProcessing ::
  "('m, 'q) retention_env \<Rightarrow> world \<Rightarrow> retention_rule \<Rightarrow> (error + unit) \<times> world" where
  "executeProcessing env w rule =
     (let w1 = w @ [LogDebug (Executing_rule (rule_name rule))];
          before_moment = cutoff env rule
      in case getElementsToDelete env w1 (rule_scope rule) before_moment (rule_filters rule) of
           Inl err \<Rightarrow> (Inl err, w1)
         | Inr result \<Rightarrow>
             (let remainingDeletions = globalCount (pageInfo result);
                  elements = edges result;
                  w2 = w1 @ [LogDebug (Clearing_elements (length elements))];
                  w3 = delete_loop env (rule_scope rule) elements w2;
                  p = \<lparr> last_execution_date = now env,
                        remaining_count = remainingDeletions,
                        last_deleted_count = length elements \<rparr>;
                  r = patchAttribute env w3 (rule_id rule) p
              in (outcome r, w3 @ [PatchAttribute (rule_id rule) p r])))"

section \<open>Background tasks\<close>

subsection \<open>Constants\<close>

definition TASK_TYPE_QUERY :: string where "TASK_TYPE_QUERY = ''QUERY''"
definition TASK_TYPE_RULE :: string where "TASK_TYPE_RULE = ''RULE''"
definition TASK_TYPE_LIST :: string where "TASK_TYPE_LIST = ''LIST''"

definition ACTION_TYPE_DELETE :: string where "ACTION_TYPE_DELETE = ''DELETE''"
definition ACTION_TYPE_RESTORE :: string where "ACTION_TYPE_RESTORE = ''RESTORE''"
definition ACTION_TYPE_COMPLETE_DELETE :: string where
  "ACTION_TYPE_COMPLETE_DELETE = ''COMPLETE_DELETE''"
definition ACTION_TYPE_SHARE :: string where "ACTION_TYPE_SHARE = ''SHARE''"
definition ACTION_TYPE_UNSHARE :: string where "ACTION_TYPE_UNSHARE = ''UNSHARE''"
definition ACTION_TYPE_SHARE_MULTIPLE :: string where
  "ACTION_TYPE_SHARE_MULTIPLE = ''SHARE_MULTIPLE''"
definition ACTION_TYPE_UNSHARE_MULTIPLE :: string where
  "ACTION_TYPE_UNSHARE_MULTIPLE = ''UNSHARE_MULTIPLE''"

text \<open>
  Modelled from the spec: the enumeration \<^verbatim>\<open>BackgroundTaskScope\<close> of the generated
  GraphQL types is not among the sources. The spec calls its values part of the external
  contract; they are the strings on which \<^verbatim>\<open>authorizedAuthoritiesForTask\<close> switches and
  which the last error message of \<^verbatim>\<open>checkActionValidity\<close> lists.
\<close>

definition BackgroundTaskScope_Settings :: string where
  "BackgroundTaskScope_Settings = ''SETTINGS''"
definition BackgroundTaskScope_Knowledge :: string where
  "BackgroundTaskScope_Knowledge = ''KNOWLEDGE''"
definition BackgroundTaskScope_User :: string where
  "BackgroundTaskScope_User = ''USER''"
definition BackgroundTaskScope_Import :: string where
  "BackgroundTaskScope_Import = ''IMPORT''"

text \<open>
  The capability names imported from \<^verbatim>\<open>utils/access\<close> and \<^verbatim>\<open>schema/general\<close>, and the
  access right imported from \<^verbatim>\<open>utils/access\<close>. Their values are not among the sources
  and are never inspected: they are only handed to \<^verbatim>\<open>isUserHasCapability\<close> or stored.
\<close>

datatype capability =
    SETTINGS_SETLABELS
  | SETTINGS_SET_ACCESSES
  | KNOWLEDGE_KNASKIMPORT
  | KNOWLEDGE_KNUPDATE
  | KNOWLEDGE_UPDATE
  | KNOWLEDGE_DELETE

datatype access_right = MEMBER_ACCESS_RIGHT_ADMIN

subsection \<open>Data\<close>

text \<open>The principal: \<open>user_ident\<close> is \<^verbatim>\<open>user.id\<close>.\<close>

record principal =
  user_ident :: string
  user_internal_id :: string

text \<open>\<open>input_filters\<close> is \<^verbatim>\<open>input.filters\<close>, the serialized filter group.\<close>

record task_input =
  actions :: "string list"
  input_filters :: "string option"
  ids :: "string list"
  scope :: string

text \<open>
  What the loaders return for an identifier: the fields the checks read
  (\<^verbatim>\<open>entity_type\<close>, \<^verbatim>\<open>parent_types\<close>, and \<^verbatim>\<open>user_id\<close> of a notification).
\<close>

record stored_object =
  object_entity_type :: string
  parent_types :: "string list"
  user_id :: string

record member =
  member_id :: string
  access_right :: access_right

record task =
  task_id :: string
  task_internal_id :: string
  standard_id :: string
  task_entity_type :: string
  initiator_id :: string
  created_at :: string
  completed :: bool
  task_type :: string
  task_last_execution_date :: "string option"
  task_position :: "string option"
  task_processed_number :: nat
  task_expected_number :: nat
  errors :: "string list"
  task_scope :: "string option"
  authorized_members :: "member list option"
  authorized_authorities :: "capability list option"

record list_task = task +
  task_actions :: "string list"
  task_ids :: "string list"

record user_action =
  action_user :: principal
  event_type :: string
  event_scope :: string
  event_access :: string
  message :: string
  context_entity_type :: string
  context_input :: list_task

text \<open>
  The two side effects of \<^verbatim>\<open>createListTask\<close>, each with what the collaborator did:
  \<open>None\<close> when it returned, \<open>Some e\<close> when it threw. \<open>ElIndex\<close> is always on
  \<^verbatim>\<open>INDEX_INTERNAL_OBJECTS\<close>.
\<close>

datatype task_event =
    PublishUserAction user_action "error option"
  | ElIndex list_task "error option"

type_synonym task_world = "task_event list"

record task_env = platform_env +
  ENTITY_TYPE_BACKGROUND_TASK :: string
  ENTITY_TYPE_NOTIFICATION :: string
  ENTITY_TYPE_VOCABULARY :: string
  ENTITY_TYPE_DELETE_OPERATION :: string
  isUserHasCapability :: "principal \<Rightarrow> capability \<Rightarrow> bool"
  isKnowledge :: "string \<Rightarrow> bool"
  getParentTypes :: "string \<Rightarrow> string list"
  isFilterGroupNotEmpty :: "filter_group option \<Rightarrow> bool"
  internalLoadById :: "principal \<Rightarrow> string \<Rightarrow> stored_object option"
  storeLoadById :: "principal \<Rightarrow> string \<Rightarrow> string \<Rightarrow> stored_object option"
  generateInternalId :: string
  generateStandardId :: "string \<Rightarrow> task_input \<Rightarrow> string"
  publishUserAction :: "task_world \<Rightarrow> user_action \<Rightarrow> error option"
  elIndex :: "task_world \<Rightarrow> list_task \<Rightarrow> error option"

subsection \<open>Library functions\<close>

text \<open>\<^verbatim>\<open>String.prototype.includes\<close>: the needle occurs somewhere in the string.\<close>

fun string_includes :: "string \<Rightarrow> string \<Rightarrow> bool" where
  "string_includes [] needle = (needle = [])"
| "string_includes (c # cs) needle =
     (take (length needle) (c # cs) = needle \<or> string_includes cs needle)"

definition key_includes :: "filter_key \<Rightarrow> string \<Rightarrow> bool" where
  "key_includes k s =
     (case k of KeyString str \<Rightarrow> string_includes str s | KeyArray ks \<Rightarrow> s \<in> set ks)"

text \<open>Ramda's \<^verbatim>\<open>uniq\<close>: the first occurrence of each value, in order.\<close>

fun uniq_from :: "'a list \<Rightarrow> 'a list \<Rightarrow> 'a list" where
  "uniq_from seen [] = []"
| "uniq_from seen (x # xs) =
     (if x \<in> set seen then uniq_from seen xs else x # uniq_from (x # seen) xs)"

definition uniq :: "'a list \<Rightarrow> 'a list" where
  "uniq xs = uniq_from [] xs"

subsection \<open>checkActionValidity\<close>

definition isDeleteRestrictedAction :: "string \<Rightarrow> bool" where
  "isDeleteRestrictedAction a =
     (a = ACTION_TYPE_DELETE \<or> a = ACTION_TYPE_RESTORE \<or> a = ACTION_TYPE_COMPLETE_DELETE)"

text \<open>An array is truthy, so only the \<^verbatim>\<open>every\<close> over the flattened array decides.\<close>

definition areParentTypesKnowledge :: "task_env \<Rightarrow> string list list \<Rightarrow> bool" where
  "areParentTypesKnowledge env parentTypes = list_all (isKnowledge env) (concat parentTypes)"

text \<open>Source lines 169 to 173: the filters of the group and the values of its type filters.\<close>

definition filters_of :: "task_env \<Rightarrow> filter_group option \<Rightarrow> filter_entry list" where
  "filters_of env baseFilterObject =
     (if isFilterGroupNotEmpty env baseFilterObject
      then (case baseFilterObject of
              None \<Rightarrow> []
            | Some g \<Rightarrow> (case filters g of None \<Rightarrow> [] | Some fs \<Rightarrow> fs))
      else [])"

definition typeFilters_of :: "filter_entry list \<Rightarrow> filter_entry list" where
  "typeFilters_of fs = filter (\<lambda>f. key_includes (key f) ''entity_type'') fs"

definition typeFiltersValues_of :: "filter_entry list \<Rightarrow> string list" where
  "typeFiltersValues_of typeFilters = concat (map values typeFilters)"

definition not_knowledge :: error where
  "not_knowledge = ForbiddenAccess (Some ''The targeted ids are not knowledge.'')"

definition not_notifications :: error where
  "not_notifications = ForbiddenAccess (Some ''The targeted ids are not notifications.'')"

definition query_or_list :: error where
  "query_or_list = UnsupportedError ''A background task should be of type query or list.''"

text \<open>01. Scope Settings (source lines 174 to 178).\<close>

definition check_settings :: "task_env \<Rightarrow> principal \<Rightarrow> error + unit" where
  "check_settings env user =
     (let isAuthorized = isUserHasCapability env user SETTINGS_SETLABELS
      in if \<not> isAuthorized then Inl (ForbiddenAccess None) else Inr ())"

text \<open>
  02. Scope Knowledge (source lines 179 to 212). In the LIST branch the disjunction
  stops at \<^verbatim>\<open>objects.includes(undefined)\<close>, so \<^verbatim>\<open>o.parent_types\<close> and the destructuring
  of \<^verbatim>\<open>entity_type\<close> are only reached when every identifier resolved.
\<close>

definition check_knowledge ::
  "task_env \<Rightarrow> principal \<Rightarrow> task_input \<Rightarrow> string list \<Rightarrow> string \<Rightarrow> error + unit" where
  "check_knowledge env user input typeFiltersValues taskType =
     (if \<not> isUserHasCapability env user KNOWLEDGE_UPDATE then Inl (ForbiddenAccess None)
      else
        let askForDeletionRelatedAction = (filter isDeleteRestrictedAction (actions input) \<noteq> [])
        in if askForDeletionRelatedAction \<and> \<not> isUserHasCapability env user KNOWLEDGE_DELETE
           then Inl (ForbiddenAccess None)
           else if taskType = TASK_TYPE_QUERY then
             (let deleteOperationTypes =
                    list_all (\<lambda>t. t = ENTITY_TYPE_DELETE_OPERATION env) typeFiltersValues;
                  parentTypes = map (getParentTypes env) typeFiltersValues;
                  isNotKnowledge =
                    ((\<not> deleteOperationTypes \<and> \<not> areParentTypesKnowledge env parentTypes)
                     \<or> list_ex (\<lambda>t. t = ENTITY_TYPE_VOCABULARY env) typeFiltersValues)
              in if isNotKnowledge then Inl not_knowledge else Inr ())
           else if taskType = TASK_TYPE_LIST then
             (let objects = map (internalLoadById env user) (ids input);
                  deleteOperationTypes =
                    list_all (\<lambda>ob. map_option object_entity_type ob
                                    = Some (ENTITY_TYPE_DELETE_OPERATION env)) objects;
                  isNotKnowledge =
                    (case those objects of
                       None \<Rightarrow> True
                     | Some os \<Rightarrow>
                         (\<not> deleteOperationTypes
                            \<and> \<not> areParentTypesKnowledge env (map parent_types os))
                         \<or> list_ex (\<lambda>ob. object_entity_type ob = ENTITY_TYPE_VOCABULARY env) os)
              in if isNotKnowledge then Inl not_knowledge else Inr ())
           else Inl query_or_list)"

text \<open>
  03. Scope User (source lines 213 to 245). The conjunctions of the QUERY branch stop at
  the length tests, so index 0 is only read where it exists.
\<close>

definition check_user ::
  "task_env \<Rightarrow> principal \<Rightarrow> task_input \<Rightarrow> filter_entry list \<Rightarrow> filter_entry list \<Rightarrow> string
     \<Rightarrow> error + unit" where
  "check_user env user input fs typeFilters taskType =
     (if taskType = TASK_TYPE_QUERY then
        (let isNotifications =
               (case typeFilters of
                  [f] \<Rightarrow> (case values f of [v] \<Rightarrow> v = ''Notification'' | _ \<Rightarrow> False)
                | _ \<Rightarrow> False)
         in if \<not> isNotifications then Inl not_notifications
            else
              let userFilters = filter (\<lambda>f. key f = KeyString ''user_id'') fs;
                  isUserData =
                    (case userFilters of
                       [] \<Rightarrow> False
                     | f # _ \<Rightarrow> (case values f of [v] \<Rightarrow> v = user_ident user | _ \<Rightarrow> False));
                  isAuthorized = (isUserHasCapability env user SETTINGS_SET_ACCESSES \<or> isUserData)
              in if \<not> isAuthorized then Inl (ForbiddenAccess None) else Inr ())
      else if taskType = TASK_TYPE_LIST then
        (let objects = map (\<lambda>i. storeLoadById env user i (ENTITY_TYPE_NOTIFICATION env)) (ids input)
         in case those objects of
              None \<Rightarrow> Inl not_notifications
            | Some os \<Rightarrow>
                let notificationsUsers = uniq (map user_id os);
                    isUserData =
                      (length notificationsUsers = 1 \<and> user_ident user \<in> set notificationsUsers);
                    isAuthorized =
                      (isUserHasCapability env user SETTINGS_SET_ACCESSES \<or> isUserData)
                in if \<not> isAuthorized then Inl (ForbiddenAccess None) else Inr ())
      else Inl query_or_list)"

text \<open>04. Scope Import (source lines 246 to 256).\<close>

definition check_import :: "task_env \<Rightarrow> principal \<Rightarrow> task_input \<Rightarrow> error + unit" where
  "check_import env user input =
     (let isAuthorized = isUserHasCapability env user KNOWLEDGE_KNASKIMPORT
      in if \<not> isAuthorized then Inl (ForbiddenAccess None)
         else if list_all (\<lambda>a. a = ACTION_TYPE_DELETE) (actions input)
         then Inl (UnsupportedError ''Background tasks of scope Import can only be deletions.'')
         else Inr ())"

definition checkActionValidity ::
  "task_env \<Rightarrow> principal \<Rightarrow> task_input \<Rightarrow> string \<Rightarrow> string \<Rightarrow> error + unit" where
  "checkActionValidity env user input sc taskType =
     and_then (parse_filters env (input_filters input)) (\<lambda>baseFilterObject.
       let fs = filters_of env baseFilterObject;
           typeFilters = typeFilters_of fs;
           typeFiltersValues = typeFiltersValues_of typeFilters
       in if sc = BackgroundTaskScope_Settings then check_settings env user
          else if sc = BackgroundTaskScope_Knowledge
            then check_knowledge env user input typeFiltersValues taskType
          else if sc = BackgroundTaskScope_User
            then check_user env user input fs typeFilters taskType
          else if sc = BackgroundTaskScope_Import then check_import env user input
          else Inl (UnsupportedError
                 ''A background task should be of scope: SETTINGS, KNOWLEDGE, USER, IMPORT.''))"

subsection \<open>createDefaultTask\<close>

definition authorizedAuthoritiesForTask :: "string \<Rightarrow> capability list" where
  "authorizedAuthoritiesForTask sc =
     (if sc = ''SETTINGS'' then [SETTINGS_SETLABELS]
      else if sc = ''KNOWLEDGE'' then [KNOWLEDGE_KNUPDATE]
      else if sc = ''USER'' then [SETTINGS_SET_ACCESSES]
      else if sc = ''IMPORT'' then [KNOWLEDGE_KNASKIMPORT]
      else [])"

definition authorizedMembersForTask :: "principal \<Rightarrow> string \<Rightarrow> member list" where
  "authorizedMembersForTask user sc =
     (if sc = ''SETTINGS'' \<or> sc = ''KNOWLEDGE'' \<or> sc = ''USER''
      then [\<lparr> member_id = user_ident user, access_right = MEMBER_ACCESS_RIGHT_ADMIN \<rparr>]
      else [])"

text \<open>\<^verbatim>\<open>if (scope)\<close>: an absent or empty scope is falsy and adds no rights.\<close>

definition createDefaultTask ::
  "task_env \<Rightarrow> principal \<Rightarrow> task_input \<Rightarrow> string \<Rightarrow> nat \<Rightarrow> string option \<Rightarrow> task" where
  "createDefaultTask env user input taskType taskExpectedNumber sc =
     (let taskId = generateInternalId env;
          t = \<lparr> task_id = taskId,
                task_internal_id = taskId,
                standard_id = generateStandardId env (ENTITY_TYPE_BACKGROUND_TASK env) input,
                task_entity_type = ENTITY_TYPE_BACKGROUND_TASK env,
                initiator_id = user_internal_id user,
                created_at = now env,
                completed = False,
                task_type = taskType,
                task_last_execution_date = None,
                task_position = None,
                task_processed_number = 0,
                task_expected_number = taskExpectedNumber,
                errors = [],
                task_scope = None,
                authorized_members = None,
                authorized_authorities = None \<rparr>
      in case sc of
           None \<Rightarrow> t
         | Some s \<Rightarrow>
             if s = [] then t
             else t\<lparr> task_scope := Some s,
                     authorized_members := Some (authorizedMembersForTask user s),
                     authorized_authorities := Some (authorizedAuthoritiesForTask s) \<rparr>)"

subsection \<open>createListTask\<close>

definition createListTask ::
  "task_env \<Rightarrow> task_world \<Rightarrow> principal \<Rightarrow> task_input \<Rightarrow> (error + list_task) \<times> task_world" where
  "createListTask env w user input =
     (case checkActionValidity env user input (scope input) TASK_TYPE_LIST of
        Inl err \<Rightarrow> (Inl err, w)
      | Inr _ \<Rightarrow>
          (let t = createDefaultTask env user input TASK_TYPE_LIST (length (ids input))
                     (Some (scope input));
               listTask = task.extend t
                            (list_task.fields (actions input) (ids input));
               a = \<lparr> action_user = user,
                     event_type = ''mutation'',
                     event_scope = ''create'',
                     event_access = ''extended'',
                     message = ''creates `background task`'',
                     context_entity_type = ENTITY_TYPE_BACKGROUND_TASK env,
                     context_input = listTask \<rparr>;
               published = publishUserAction env w a;
               w1 = w @ [PublishUserAction a published]
           in case published of
                Some err \<Rightarrow> (Inl err, w1)
              | None \<Rightarrow>
                  (let indexed = elIndex env w1 listTask;
                       w2 = w1 @ [ElIndex listTask indexed]
                   in case indexed of
                        Some err \<Rightarrow> (Inl err, w2)
                      | None \<Rightarrow> (Inr listTask, w2))))"

section \<open>Observations on traces\<close>

text \<open>
  What the properties below read off a trace: the calls of the deletion collaborators
  (the identifier given and whether the call threw), the calls of \<^verbatim>\<open>patchAttribute\<close>
  (the rule and the patch), and the number of deletion calls that returned and that threw.
\<close>

definition valid_scope :: "string \<Rightarrow> bool" where
  "valid_scope sc = (sc = ''knowledge'' \<or> sc = ''file'' \<or> sc = ''workbench'')"

fun delete_calls :: "world \<Rightarrow> (string \<times> error option) list" where
  "delete_calls [] = []"
| "delete_calls (DeleteElementById i t f r # w) = (i, r) # delete_calls w"
| "delete_calls (DeleteFile i r # w) = (i, r) # delete_calls w"
| "delete_calls (ev # w) = delete_calls w"

fun patch_calls :: "world \<Rightarrow> (string \<times> patch) list" where
  "patch_calls [] = []"
| "patch_calls (PatchAttribute i p r # w) = (i, p) # patch_calls w"
| "patch_calls (ev # w) = patch_calls w"

definition deleted_count :: "world \<Rightarrow> nat" where
  "deleted_count w = length (filter (\<lambda>c. snd c = None) (delete_calls w))"

definition failed_count :: "world \<Rightarrow> nat" where
  "failed_count w = length (filter (\<lambda>c. snd c \<noteq> None) (delete_calls w))"

text \<open>
  One round of the loop, for a scope that has a deletion path: what the collaborator
  answers, the call as recorded, and the log line that follows it.
\<close>

definition delete_result ::
  "('m, 'q) retention_env \<Rightarrow> world \<Rightarrow> string \<Rightarrow> element \<Rightarrow> error option" where
  "delete_result env w sc nd =
     (if sc = ''knowledge'' then deleteElementById env w (internal_id nd) (entity_type nd)
      else deleteFile env w (element_id nd))"

definition delete_event :: "string \<Rightarrow> element \<Rightarrow> error option \<Rightarrow> event" where
  "delete_event sc nd r =
     (if sc = ''knowledge'' then DeleteElementById (internal_id nd) (entity_type nd) True r
      else DeleteFile (element_id nd) r)"

definition log_event :: "('m, 'q) retention_env \<Rightarrow> element \<Rightarrow> error option \<Rightarrow> event" where
  "log_event env nd r =
     (case r of
        None \<Rightarrow> LogDebug (Deleting_after (element_id nd) (humanDuration env (updated_at nd)))
      | Some err \<Rightarrow> LogError err (element_id nd) ''RETENTION_MANAGER'')"

text \<open>
  The types a filter group targets, in the words of the specification: every value of
  every filter on \<^verbatim>\<open>entity_type\<close>, in the group itself or in a group nested in it.
\<close>

fun all_filters :: "filter_group \<Rightarrow> filter_entry list" where
  "all_filters (FilterGroup m fs gs) =
     (case fs of None \<Rightarrow> [] | Some xs \<Rightarrow> xs) @ concat (map all_filters gs)"

definition targeted_entity_types :: "filter_group \<Rightarrow> string list" where
  "targeted_entity_types g = typeFiltersValues_of (typeFilters_of (all_filters g))"

text \<open>The batch a run works on: the edges that \<^verbatim>\<open>getElementsToDelete\<close> returns, if it returns.\<close>

definition candidate_batch ::
  "('m, 'q) retention_env \<Rightarrow> world \<Rightarrow> retention_rule \<Rightarrow> edge list" where
  "candidate_batch env w rule =
     (case getElementsToDelete env (w @ [LogDebug (Executing_rule (rule_name rule))])
             (rule_scope rule) (cutoff env rule) (rule_filters rule) of
        Inl err \<Rightarrow> []
      | Inr result \<Rightarrow> edges result)"

section \<open>Example environments\<close>

text \<open>
  A page of three files, the second still being uploaded, and a file storage that fails
  on the first; a platform with two ordinary users, an administrator, one report and
  three notifications. The serialized filter groups are abbreviated to a name each.
\<close>

definition file_1 :: element where
  "file_1 = \<lparr> element_id = ''file-1'', internal_id = ''internal-1'', entity_type = None,
              updated_at = ''2024-03-01T00:00:00.000Z'', uploadStatus = Some ''complete'',
              works = Some [Some \<lparr> status = ''complete'' \<rparr>] \<rparr>"

definition file_2 :: element where
  "file_2 = \<lparr> element_id = ''file-2'', internal_id = ''internal-2'', entity_type = None,
              updated_at = ''2024-03-02T00:00:00.000Z'', uploadStatus = Some ''progress'',
              works = Some [Some \<lparr> status = ''wait'' \<rparr>] \<rparr>"

definition file_3 :: element where
  "file_3 = \<lparr> element_id = ''file-3'', internal_id = ''internal-3'', entity_type = None,
              updated_at = ''2024-03-03T00:00:00.000Z'', uploadStatus = Some ''complete'',
              works = None \<rparr>"

definition example_page :: paginated where
  "example_page = \<lparr> edges = [\<lparr> node = file_1 \<rparr>, \<lparr> node = file_2 \<rparr>, \<lparr> node = file_3 \<rparr>],
                    pageInfo = \<lparr> globalCount = 150 \<rparr> \<rparr>"

definition example_env :: "(unit, unit) retention_env" where
  "example_env =
     \<lparr> JSON_parse = (\<lambda>s. Inl (Thrown ''SyntaxError'')),
       now = ''2024-06-01T00:00:00.000Z'',
       RETENTION_BATCH_SIZE = 100,
       utcDate = (),
       subtract = (\<lambda>m n u. ()),
       toISOString = (\<lambda>m. ''2024-05-02T00:00:00.000Z''),
       humanDuration = (\<lambda>u. ''3 months''),
       convertFiltersToQueryOptions = (\<lambda>j m. Inr ()),
       elPaginate = (\<lambda>w q n. Inr example_page),
       paginatedForPathWithEnrichment = (\<lambda>w path n since. Inr example_page),
       deleteElementById = (\<lambda>w i t. None),
       deleteFile = (\<lambda>w i. if i = ''file-1'' then Some (Thrown ''storage unavailable'') else None),
       patchAttribute = (\<lambda>w i p. None) \<rparr>"

definition example_rule :: "string \<Rightarrow> retention_rule" where
  "example_rule sc =
     \<lparr> rule_id = ''rule-1'', rule_name = ''old files'', max_retention = 30,
       retention_unit = None, rule_filters = None, rule_scope = sc \<rparr>"

definition type_filters :: "string list \<Rightarrow> filter_group" where
  "type_filters types =
     FilterGroup (Some ''and'')
       (Some [\<lparr> key = KeyArray [''entity_type''], values = types,
                 operator = Some ''eq'', filter_mode = Some ''or'' \<rparr>]) []"

definition nested_vocabulary :: filter_group where
  "nested_vocabulary = FilterGroup (Some ''and'') (Some []) [type_filters [''Vocabulary'']]"

definition example_object :: "string \<Rightarrow> string \<Rightarrow> stored_object" where
  "example_object t owner =
     \<lparr> object_entity_type = t,
       parent_types = (if t = ''Report'' then [''Basic-Object'', ''Stix-Domain-Object''] else []),
       user_id = owner \<rparr>"

definition example_task_env :: task_env where
  "example_task_env =
     \<lparr> JSON_parse = (\<lambda>s. if s = ''reports and vocabularies''
                           then Inr (type_filters [''Report'', ''Vocabulary''])
                         else if s = ''no types'' then Inr (FilterGroup (Some ''and'') (Some []) [])
                         else if s = ''nested vocabulary'' then Inr nested_vocabulary
                         else Inl (Thrown ''SyntaxError'')),
       now = ''2024-06-01T00:00:00.000Z'',
       ENTITY_TYPE_BACKGROUND_TASK = ''BackgroundTask'',
       ENTITY_TYPE_NOTIFICATION = ''Notification'',
       ENTITY_TYPE_VOCABULARY = ''Vocabulary'',
       ENTITY_TYPE_DELETE_OPERATION = ''DeleteOperation'',
       isUserHasCapability = (\<lambda>u c. user_ident u = ''admin''
                                \<or> (user_ident u = ''alice'' \<and> c \<noteq> SETTINGS_SET_ACCESSES)),
       isKnowledge = (\<lambda>t. t = ''Stix-Domain-Object'' \<or> t = ''Basic-Object''),
       getParentTypes = (\<lambda>t. parent_types (example_object t [])),
       isFilterGroupNotEmpty = (\<lambda>g. case g of
                                  None \<Rightarrow> False
                                | Some x \<Rightarrow> filters x \<noteq> None \<and> filters x \<noteq> Some []
                                            \<or> filterGroups x \<noteq> []),
       internalLoadById = (\<lambda>u i. if i = ''report-1'' then Some (example_object ''Report'' [])
                                else None),
       storeLoadById = (\<lambda>u i t. if t \<noteq> ''Notification'' then None
                                else if i = ''notification-1'' \<or> i = ''notification-2''
                                  then Some (example_object t ''alice'')
                                else if i = ''notification-3'' then Some (example_object t ''bob'')
                                else None),
       generateInternalId = ''task-1'',
       generateStandardId = (\<lambda>t i. ''background-task--1''),
       publishUserAction = (\<lambda>w a. None),
       elIndex = (\<lambda>w t. None) \<rparr>"

definition example_user :: "string \<Rightarrow> principal" where
  "example_user n = \<lparr> user_ident = n, user_internal_id = n \<rparr>"

definition example_input :: "string list \<Rightarrow> string option \<Rightarrow> string list \<Rightarrow> string \<Rightarrow> task_input" where
  "example_input as fs is sc = \<lparr> actions = as, input_filters = fs, ids = is, scope = sc \<rparr>"

definition example_list_task :: list_task where
  "example_list_task =
     \<lparr> task_id = ''task-1'', task_internal_id = ''task-1'',
       standard_id = ''background-task--1'', task_entity_type = ''BackgroundTask'',
       initiator_id = ''alice'', created_at = ''2024-06-01T00:00:00.000Z'',
       completed = False, task_type = ''LIST'', task_last_execution_date = None,
       task_position = None, task_processed_number = 0, task_expected_number = 1,
       errors = [], task_scope = Some ''KNOWLEDGE'',
       authorized_members =
         Some [\<lparr> member_id = ''alice'', access_right = MEMBER_ACCESS_RIGHT_ADMIN \<rparr>],
       authorized_authorities = Some [KNOWLEDGE_KNUPDATE],
       task_actions = [''DELETE''], task_ids = [''report-1''] \<rparr>"

definition example_user_action :: user_action where
  "example_user_action =
     \<lparr> action_user = example_user ''alice'', event_type = ''mutation'',
       event_scope = ''create'', event_access = ''extended'',
       message = ''creates `background task`'', context_entity_type = ''BackgroundTask'',
       context_input = example_list_task \<rparr>"

section \<open>The loop of the retention manager\<close>

lemma delete_calls_append: "delete_calls (u @ v) = delete_calls u @ delete_calls v"
  by (induction u rule: delete_calls.induct) simp_all

lemma patch_calls_append: "patch_calls (u @ v) = patch_calls u @ patch_calls v"
  by (induction u rule: patch_calls.induct) simp_all

lemma count_split: "deleted_count w + failed_count w = length (delete_calls w)"
  unfolding deleted_count_def failed_count_def
  using sum_length_filter_compl [of "\<lambda>c. snd c = None" "delete_calls w"] by simp

lemma getElementsToDelete_valid_scope:
  "getElementsToDelete env w sc bm fs = Inr result \<Longrightarrow> valid_scope sc"
  unfolding getElementsToDelete_def valid_scope_def and_then_def
  by (cases "sc = ''knowledge''"; cases "sc = ''file''"; cases "sc = ''workbench''") simp_all

lemma getElementsToDelete_complete:
  assumes "getElementsToDelete env w sc bm fs = Inr result"
    and "sc = ''knowledge'' \<or> sc = ''file''"
  shows "list_all edge_is_complete (edges result)"
proof -
  from assms obtain page where "result = page\<lparr>edges := filter edge_is_complete (edges page)\<rparr>"
    unfolding getElementsToDelete_def and_then_def
    by (auto split: sum.splits)
  then show ?thesis by (simp add: list_all_iff)
qed

lemma work_is_complete_iff:
  "work_is_complete wk \<longleftrightarrow> (\<exists>x. wk = Some x \<and> status x = ''complete'')"
  by (cases wk) (simp_all add: work_is_complete_def)

lemma edge_is_complete_iff:
  "edge_is_complete e \<longleftrightarrow>
     uploadStatus (node e) = Some ''complete''
     \<and> (\<forall>wk \<in> set (case works (node e) of None \<Rightarrow> [] | Some ws \<Rightarrow> ws).
           \<exists>x. wk = Some x \<and> status x = ''complete'')"
  by (simp add: edge_is_complete_def list_all_iff work_is_complete_iff)

lemma delete_step:
  assumes "valid_scope sc"
  shows "delete_loop env sc (e # es) w =
           delete_loop env sc es
             (w @ [delete_event sc (node e) (delete_result env w sc (node e)),
                   log_event env (node e) (delete_result env w sc (node e))])"
proof (cases "sc = ''knowledge''")
  case True
  then show ?thesis
    by (cases "deleteElementById env w (internal_id (node e)) (entity_type (node e))")
       (simp_all add: deleteElement_def delete_target_def delete_result_def delete_event_def
          log_event_def outcome_def Let_def)
next
  case False
  with assms have fw: "sc = ''file'' \<or> sc = ''workbench''"
    by (simp add: valid_scope_def)
  show ?thesis
    using False fw
    by (cases "deleteFile env w (element_id (node e))")
       (simp_all add: deleteElement_def delete_target_def delete_result_def delete_event_def
          log_event_def outcome_def Let_def)
qed

lemma delete_loop_append:
  "valid_scope sc \<Longrightarrow>
   delete_loop env sc (xs @ ys) w = delete_loop env sc ys (delete_loop env sc xs w)"
  by (induction xs arbitrary: w) (simp_all add: delete_step del: delete_loop.simps(2))

lemma delete_event_call:
  "delete_calls [delete_event sc nd r, log_event env nd r] = [(delete_target sc nd, r)]"
  by (cases r) (simp_all add: delete_event_def log_event_def delete_target_def)

lemma delete_event_patch:
  "patch_calls [delete_event sc nd r, log_event env nd r] = []"
  by (cases r) (simp_all add: delete_event_def log_event_def)

lemma delete_loop_targets:
  "valid_scope sc \<Longrightarrow>
   map fst (delete_calls (delete_loop env sc es w))
     = map fst (delete_calls w) @ map (\<lambda>e. delete_target sc (node e)) es"
proof (induction es arbitrary: w)
  case Nil
  then show ?case by simp
next
  case (Cons e es)
  then show ?case
    by (simp add: delete_step delete_calls_append delete_event_call del: delete_loop.simps delete_calls.simps)
qed

lemma delete_loop_patch_calls:
  "valid_scope sc \<Longrightarrow> patch_calls (delete_loop env sc es w) = patch_calls w"
proof (induction es arbitrary: w)
  case Nil
  then show ?case by simp
next
  case (Cons e es)
  then show ?case
    by (simp add: delete_step patch_calls_append delete_event_patch del: delete_loop.simps patch_calls.simps)
qed

lemma executeProcessing_fetched:
  assumes "getElementsToDelete env (w @ [LogDebug (Executing_rule (rule_name rule))])
             (rule_scope rule) (cutoff env rule) (rule_filters rule) = Inr result"
  shows "snd (executeProcessing env w rule) =
           (let w3 = delete_loop env (rule_scope rule) (edges result)
                       (w @ [LogDebug (Executing_rule (rule_name rule)),
                             LogDebug (Clearing_elements (length (edges result)))]);
                p = \<lparr> last_execution_date = now env,
                      remaining_count = globalCount (pageInfo result),
                      last_deleted_count = length (edges result) \<rparr>
            in w3 @ [PatchAttribute (rule_id rule) p (patchAttribute env w3 (rule_id rule) p)])"
  using assms by (simp add: executeProcessing_def Let_def)

lemma executeProcessing_not_fetched:
  assumes "getElementsToDelete env (w @ [LogDebug (Executing_rule (rule_name rule))])
             (rule_scope rule) (cutoff env rule) (rule_filters rule) = Inl err"
  shows "executeProcessing env w rule = (Inl err, w @ [LogDebug (Executing_rule (rule_name rule))])"
  using assms by (simp add: executeProcessing_def Let_def)

lemma fetched_calls:
  assumes "getElementsToDelete env (w @ [LogDebug (Executing_rule (rule_name rule))])
             (rule_scope rule) (cutoff env rule) (rule_filters rule) = Inr result"
  shows "map fst (delete_calls (snd (executeProcessing env w rule)))
           = map fst (delete_calls w)
               @ map (\<lambda>e. delete_target (rule_scope rule) (node e)) (edges result)"
  using assms getElementsToDelete_valid_scope [OF assms]
  by (simp add: executeProcessing_fetched Let_def delete_calls_append delete_loop_targets)

lemma fetched_patches:
  assumes "getElementsToDelete env (w @ [LogDebug (Executing_rule (rule_name rule))])
             (rule_scope rule) (cutoff env rule) (rule_filters rule) = Inr result"
  shows "patch_calls (snd (executeProcessing env w rule))
           = patch_calls w
               @ [(rule_id rule, \<lparr> last_execution_date = now env,
                                   remaining_count = globalCount (pageInfo result),
                                   last_deleted_count = length (edges result) \<rparr>)]"
  using assms getElementsToDelete_valid_scope [OF assms]
  by (simp add: executeProcessing_fetched Let_def patch_calls_append delete_loop_patch_calls)

section \<open>Properties of a rule execution\<close>

text \<open>
  The count written by a run can differ from the number of deletions that went through.
  With the example storage, which fails on the first file, a rule of scope \<^verbatim>\<open>file\<close> works
  on a batch of two, deletes one, and writes 2.
\<close>

theorem last_deleted_count_counts_thrown_deletions:
  "map (\<lambda>c. last_deleted_count (snd c))
       (patch_calls (snd (executeProcessing example_env [] (example_rule ''file'')))) = [2]
   \<and> deleted_count (snd (executeProcessing example_env [] (example_rule ''file''))) = 1"
  by code_simp

text \<open>
  Claim C1, as amended. When the candidates are fetched, the run calls \<^verbatim>\<open>patchAttribute\<close>
  once, and the \<^verbatim>\<open>last_deleted_count\<close> it writes is the length of the fetched, filtered
  batch: the number of deletions that returned plus the number that threw. It is the
  number of elements deleted only when no deletion throws.
\<close>

theorem last_deleted_count_is_batch_length:
  assumes "getElementsToDelete env (w @ [LogDebug (Executing_rule (rule_name rule))])
             (rule_scope rule) (cutoff env rule) (rule_filters rule) = Inr result"
  shows "map (\<lambda>c. last_deleted_count (snd c)) (patch_calls (snd (executeProcessing env w rule)))
           = map (\<lambda>c. last_deleted_count (snd c)) (patch_calls w) @ [length (edges result)]
         \<and> deleted_count (snd (executeProcessing env w rule))
             + failed_count (snd (executeProcessing env w rule))
           = deleted_count w + failed_count w + length (edges result)"
proof -
  have "length (map fst (delete_calls (snd (executeProcessing env w rule))))
          = length (map fst (delete_calls w)) + length (edges result)"
    by (simp only: fetched_calls [OF assms] length_append length_map)
  then show ?thesis
    by (simp add: fetched_patches [OF assms] count_split)
qed

theorem last_deleted_count_is_batch_length_witness:
  "getElementsToDelete example_env [LogDebug (Executing_rule ''old files'')] ''file'' ()  None
     = Inr \<lparr> edges = [\<lparr> node = file_1 \<rparr>, \<lparr> node = file_3 \<rparr>], pageInfo = \<lparr> globalCount = 150 \<rparr> \<rparr>
   \<and> map (\<lambda>c. last_deleted_count (snd c))
        (patch_calls (snd (executeProcessing example_env [] (example_rule ''file'')))) = [2]
   \<and> deleted_count (snd (executeProcessing example_env [] (example_rule ''file'')))
        + failed_count (snd (executeProcessing example_env [] (example_rule ''file''))) = 2"
proof -
  have f: "getElementsToDelete example_env
             ([] @ [LogDebug (Executing_rule (rule_name (example_rule ''file'')))])
             (rule_scope (example_rule ''file'')) (cutoff example_env (example_rule ''file''))
             (rule_filters (example_rule ''file''))
           = Inr \<lparr> edges = [\<lparr> node = file_1 \<rparr>, \<lparr> node = file_3 \<rparr>],
                   pageInfo = \<lparr> globalCount = 150 \<rparr> \<rparr>"
    by code_simp
  have g: "getElementsToDelete example_env [LogDebug (Executing_rule ''old files'')] ''file'' () None
     = Inr \<lparr> edges = [\<lparr> node = file_1 \<rparr>, \<lparr> node = file_3 \<rparr>], pageInfo = \<lparr> globalCount = 150 \<rparr> \<rparr>"
    by code_simp
  show ?thesis
    using last_deleted_count_is_batch_length [OF f] g by (simp add: deleted_count_def failed_count_def)
qed

text \<open>
  Claim C2. The filter on upload status and works is applied for the scopes \<^verbatim>\<open>file\<close> and
  \<^verbatim>\<open>knowledge\<close> only. A rule of scope \<^verbatim>\<open>workbench\<close> keeps the whole page: the second
  file of the example page, whose upload is in progress and whose work is waiting, is
  handed to \<^verbatim>\<open>deleteFile\<close>, which returns.
\<close>

theorem workbench_deletes_incomplete_file:
  "\<not> edge_is_complete \<lparr> node = file_2 \<rparr>
   \<and> delete_calls (snd (executeProcessing example_env [] (example_rule ''workbench'')))
       = [(''file-1'', Some (Thrown ''storage unavailable'')),
          (element_id file_2, None), (''file-3'', None)]"
  by code_simp

text \<open>
  For the scopes \<^verbatim>\<open>file\<close> and \<^verbatim>\<open>knowledge\<close> the protection holds: the deletion
  collaborators are called on the elements of the batch, in order, and on nothing else,
  and every element of the batch has a complete upload and only complete works.
\<close>

lemma file_and_knowledge_delete_only_complete:
  assumes "rule_scope rule = ''knowledge'' \<or> rule_scope rule = ''file''"
  shows "map fst (delete_calls (snd (executeProcessing env w rule)))
           = map fst (delete_calls w)
               @ map (\<lambda>e. delete_target (rule_scope rule) (node e)) (candidate_batch env w rule)
         \<and> (\<forall>e \<in> set (candidate_batch env w rule).
               uploadStatus (node e) = Some ''complete''
               \<and> (\<forall>wk \<in> set (case works (node e) of None \<Rightarrow> [] | Some ws \<Rightarrow> ws).
                     \<exists>x. wk = Some x \<and> status x = ''complete''))"
proof (cases "getElementsToDelete env (w @ [LogDebug (Executing_rule (rule_name rule))])
                (rule_scope rule) (cutoff env rule) (rule_filters rule)")
  case (Inl err)
  then show ?thesis
    by (simp add: executeProcessing_not_fetched candidate_batch_def delete_calls_append)
next
  case (Inr result)
  have batch: "candidate_batch env w rule = edges result"
    using Inr by (simp add: candidate_batch_def)
  have "list_all edge_is_complete (edges result)"
    using getElementsToDelete_complete [OF Inr assms] .
  then have "\<forall>e \<in> set (edges result).
               uploadStatus (node e) = Some ''complete''
               \<and> (\<forall>wk \<in> set (case works (node e) of None \<Rightarrow> [] | Some ws \<Rightarrow> ws).
                     \<exists>x. wk = Some x \<and> status x = ''complete'')"
    by (simp add: list_all_iff edge_is_complete_iff)
  then show ?thesis
    using fetched_calls [OF Inr] batch by simp
qed

text \<open>
  Claim C4. Let the batch be \<open>xs @ e # ys\<close> and let the deletion of \<open>e\<close> throw \<open>err\<close>
  in the state reached after \<open>xs\<close>. Then the error is logged with the identifier of
  \<open>e\<close> and the manager name, the loop goes on with \<open>ys\<close>, and the run ends with the
  call of \<^verbatim>\<open>patchAttribute\<close> on the rule; a deletion is attempted on every element of the
  batch, in order. The error of the deletion does not leave the run: the run returns
  when \<^verbatim>\<open>patchAttribute\<close> returns, and fails only with what \<^verbatim>\<open>patchAttribute\<close> throws.
\<close>

theorem deletion_failure_is_logged_and_skipped:
  assumes fetched: "getElementsToDelete env (w @ [LogDebug (Executing_rule (rule_name rule))])
             (rule_scope rule) (cutoff env rule) (rule_filters rule) = Inr result"
    and batch: "edges result = xs @ e # ys"
    and reached: "wx = delete_loop env (rule_scope rule) xs
                         (w @ [LogDebug (Executing_rule (rule_name rule)),
                               LogDebug (Clearing_elements (length (edges result)))])"
    and thrown: "deleteElement env wx (rule_scope rule)
                   (delete_target (rule_scope rule) (node e)) (entity_type (node e))
                 = (Inl err, wx')"
    and rest: "w3 = delete_loop env (rule_scope rule) ys
                      (wx' @ [LogError err (element_id (node e)) ''RETENTION_MANAGER''])"
    and p: "p = \<lparr> last_execution_date = now env,
                  remaining_count = globalCount (pageInfo result),
                  last_deleted_count = length (edges result) \<rparr>"
  shows "executeProcessing env w rule
           = (outcome (patchAttribute env w3 (rule_id rule) p),
              w3 @ [PatchAttribute (rule_id rule) p (patchAttribute env w3 (rule_id rule) p)])
         \<and> map fst (delete_calls (snd (executeProcessing env w rule)))
           = map fst (delete_calls w)
               @ map (\<lambda>e. delete_target (rule_scope rule) (node e)) (edges result)"
proof -
  have v: "valid_scope (rule_scope rule)"
    using getElementsToDelete_valid_scope [OF fetched] .
  have "delete_loop env (rule_scope rule) (xs @ e # ys)
          (w @ [LogDebug (Executing_rule (rule_name rule)),
                LogDebug (Clearing_elements (length (edges result)))]) = w3"
    unfolding delete_loop_append [OF v] reached [symmetric]
    using thrown rest by (simp add: Let_def)
  then have "executeProcessing env w rule
           = (outcome (patchAttribute env w3 (rule_id rule) p),
              w3 @ [PatchAttribute (rule_id rule) p (patchAttribute env w3 (rule_id rule) p)])"
    using fetched batch p by (simp add: executeProcessing_def Let_def)
  then show ?thesis
    using fetched_calls [OF fetched] by simp
qed

theorem deletion_failure_is_logged_and_skipped_witness:
  "executeProcessing example_env [] (example_rule ''workbench'')
     = (Inr (),
       [LogDebug (Executing_rule ''old files''), LogDebug (Clearing_elements 3),
        DeleteFile ''file-1'' (Some (Thrown ''storage unavailable'')),
        LogError (Thrown ''storage unavailable'') ''file-1'' ''RETENTION_MANAGER'',
        DeleteFile ''file-2'' None, LogDebug (Deleting_after ''file-2'' ''3 months''),
        DeleteFile ''file-3'' None, LogDebug (Deleting_after ''file-3'' ''3 months''),
        PatchAttribute ''rule-1''
          \<lparr> last_execution_date = ''2024-06-01T00:00:00.000Z'', remaining_count = 150,
            last_deleted_count = 3 \<rparr> None])"
proof -
  let ?rule = "example_rule ''workbench''"
  let ?w2 = "[] @ [LogDebug (Executing_rule (rule_name ?rule)),
                   LogDebug (Clearing_elements (length (edges example_page)))]"
  let ?wx' = "?w2 @ [DeleteFile ''file-1'' (Some (Thrown ''storage unavailable''))]"
  let ?w3 = "delete_loop example_env (rule_scope ?rule) [\<lparr> node = file_2 \<rparr>, \<lparr> node = file_3 \<rparr>]
               (?wx' @ [LogError (Thrown ''storage unavailable'') (element_id (node \<lparr> node = file_1 \<rparr>))
                          ''RETENTION_MANAGER''])"
  let ?p = "\<lparr> last_execution_date = now example_env,
              remaining_count = globalCount (pageInfo example_page),
              last_deleted_count = length (edges example_page) \<rparr>"
  have f: "getElementsToDelete example_env ([] @ [LogDebug (Executing_rule (rule_name ?rule))])
             (rule_scope ?rule) (cutoff example_env ?rule) (rule_filters ?rule)
           = Inr example_page"
    by code_simp
  have b: "edges example_page = [] @ \<lparr> node = file_1 \<rparr> # [\<lparr> node = file_2 \<rparr>, \<lparr> node = file_3 \<rparr>]"
    by (simp add: example_page_def)
  have r: "?w2 = delete_loop example_env (rule_scope ?rule) [] ?w2"
    by simp
  have t: "deleteElement example_env ?w2 (rule_scope ?rule)
             (delete_target (rule_scope ?rule) (node \<lparr> node = file_1 \<rparr>))
             (entity_type (node \<lparr> node = file_1 \<rparr>))
           = (Inl (Thrown ''storage unavailable''), ?wx')"
    by code_simp
  have e: "(outcome (patchAttribute example_env ?w3 (rule_id ?rule) ?p),
            ?w3 @ [PatchAttribute (rule_id ?rule) ?p
                     (patchAttribute example_env ?w3 (rule_id ?rule) ?p)])
           = (Inr (),
       [LogDebug (Executing_rule ''old files''), LogDebug (Clearing_elements 3),
        DeleteFile ''file-1'' (Some (Thrown ''storage unavailable'')),
        LogError (Thrown ''storage unavailable'') ''file-1'' ''RETENTION_MANAGER'',
        DeleteFile ''file-2'' None, LogDebug (Deleting_after ''file-2'' ''3 months''),
        DeleteFile ''file-3'' None, LogDebug (Deleting_after ''file-3'' ''3 months''),
        PatchAttribute ''rule-1''
          \<lparr> last_execution_date = ''2024-06-01T00:00:00.000Z'', remaining_count = 150,
            last_deleted_count = 3 \<rparr> None])"
    by code_simp
  show ?thesis
    using deletion_failure_is_logged_and_skipped [OF f b r t refl refl, THEN conjunct1] unfolding e .
qed

text \<open>
  Claim C6. When the candidates are fetched, the run calls \<^verbatim>\<open>patchAttribute\<close> once, on
  the rule, and the \<^verbatim>\<open>remaining_count\<close> it writes is the \<^verbatim>\<open>globalCount\<close> of the paginated
  result, which was read before any deletion of the batch.
\<close>

theorem remaining_count_is_globalCount:
  assumes "getElementsToDelete env (w @ [LogDebug (Executing_rule (rule_name rule))])
             (rule_scope rule) (cutoff env rule) (rule_filters rule) = Inr result"
  shows "map (\<lambda>c. (fst c, remaining_count (snd c))) (patch_calls (snd (executeProcessing env w rule)))
           = map (\<lambda>c. (fst c, remaining_count (snd c))) (patch_calls w)
               @ [(rule_id rule, globalCount (pageInfo result))]"
  by (simp add: fetched_patches [OF assms])

theorem remaining_count_is_globalCount_witness:
  "getElementsToDelete example_env [LogDebug (Executing_rule ''old files'')] ''knowledge'' () None
     = Inr \<lparr> edges = [\<lparr> node = file_1 \<rparr>, \<lparr> node = file_3 \<rparr>],
             pageInfo = \<lparr> globalCount = 150 \<rparr> \<rparr>
   \<and> map (\<lambda>c. (fst c, remaining_count (snd c)))
        (patch_calls (snd (executeProcessing example_env [] (example_rule ''knowledge''))))
       = [(''rule-1'', 150)]"
proof -
  have f: "getElementsToDelete example_env
             ([] @ [LogDebug (Executing_rule (rule_name (example_rule ''knowledge'')))])
             (rule_scope (example_rule ''knowledge''))
             (cutoff example_env (example_rule ''knowledge''))
             (rule_filters (example_rule ''knowledge''))
           = Inr \<lparr> edges = [\<lparr> node = file_1 \<rparr>, \<lparr> node = file_3 \<rparr>],
                   pageInfo = \<lparr> globalCount = 150 \<rparr> \<rparr>"
    by code_simp
  have g: "getElementsToDelete example_env [LogDebug (Executing_rule ''old files'')]
             ''knowledge'' () None
           = Inr \<lparr> edges = [\<lparr> node = file_1 \<rparr>, \<lparr> node = file_3 \<rparr>],
                   pageInfo = \<lparr> globalCount = 150 \<rparr> \<rparr>"
    by code_simp
  show ?thesis
    using remaining_count_is_globalCount [OF f] g by (simp add: example_rule_def)
qed

section \<open>Properties of the authorization check\<close>

lemma those_map_Some: "those (map Some xs) = Some xs"
  by (induction xs) simp_all

lemma those_None_iff: "those xs = None \<longleftrightarrow> None \<in> set xs"
  by (induction xs) (auto split: option.splits)

lemma set_uniq_from: "set (uniq_from seen xs) = set xs - set seen"
  by (induction xs arbitrary: seen) auto

lemma distinct_uniq_from: "distinct (uniq_from seen xs)"
  by (induction xs arbitrary: seen) (auto simp: set_uniq_from)

lemma single_owner_iff:
  "length (uniq xs) = 1 \<and> u \<in> set (uniq xs) \<longleftrightarrow> set xs = {u}"
proof -
  have s: "set (uniq xs) = set xs"
    by (simp add: uniq_def set_uniq_from)
  have "length (uniq xs) = card (set xs)"
    using distinct_card [OF distinct_uniq_from [of "[]" xs]] by (simp add: uniq_def set_uniq_from)
  then show ?thesis
    unfolding s by (auto simp: card_1_singleton_iff)
qed

lemma scope_import:
  assumes "parse_filters env (input_filters input) = Inr b"
  shows "checkActionValidity env user input BackgroundTaskScope_Import taskType
           = check_import env user input"
  using assms
  by (simp add: checkActionValidity_def and_then_def BackgroundTaskScope_Import_def
        BackgroundTaskScope_Settings_def BackgroundTaskScope_Knowledge_def
        BackgroundTaskScope_User_def)

lemma scope_knowledge:
  assumes "parse_filters env (input_filters input) = Inr b"
  shows "checkActionValidity env user input BackgroundTaskScope_Knowledge taskType
           = check_knowledge env user input
               (typeFiltersValues_of (typeFilters_of (filters_of env b))) taskType"
  using assms
  by (simp add: checkActionValidity_def and_then_def Let_def
        BackgroundTaskScope_Settings_def BackgroundTaskScope_Knowledge_def)

lemma scope_user:
  assumes "parse_filters env (input_filters input) = Inr b"
  shows "checkActionValidity env user input BackgroundTaskScope_User taskType
           = check_user env user input (filters_of env b) (typeFilters_of (filters_of env b))
               taskType"
  using assms
  by (simp add: checkActionValidity_def and_then_def Let_def
        BackgroundTaskScope_Settings_def BackgroundTaskScope_Knowledge_def
        BackgroundTaskScope_User_def)

text \<open>
  Claim C5. Scope Import, the principal holding the import capability, the filters of
  the request absent or parsed: a request whose actions are all \<^verbatim>\<open>DELETE\<close> is denied with
  the unsupported-operation error, and a request with at least one action other than
  \<^verbatim>\<open>DELETE\<close> is allowed, whether or not a \<^verbatim>\<open>DELETE\<close> comes with it.
\<close>

theorem import_rejects_only_deletions:
  assumes cap: "isUserHasCapability env user KNOWLEDGE_KNASKIMPORT"
    and parsed: "parse_filters env (input_filters input) = Inr b"
  shows "(actions input \<noteq> [] \<and> (\<forall>a \<in> set (actions input). a = ACTION_TYPE_DELETE)
            \<longrightarrow> checkActionValidity env user input BackgroundTaskScope_Import taskType
                  = Inl (UnsupportedError
                           ''Background tasks of scope Import can only be deletions.''))
         \<and> ((\<exists>a \<in> set (actions input). a \<noteq> ACTION_TYPE_DELETE)
            \<longrightarrow> checkActionValidity env user input BackgroundTaskScope_Import taskType = Inr ())"
  using cap by (auto simp: scope_import [OF parsed] check_import_def list_all_iff)

theorem import_rejects_only_deletions_witness:
  "checkActionValidity example_task_env (example_user ''alice'')
       (example_input [''DELETE''] None [] ''IMPORT'') BackgroundTaskScope_Import TASK_TYPE_LIST
     = Inl (UnsupportedError ''Background tasks of scope Import can only be deletions.'')
   \<and> checkActionValidity example_task_env (example_user ''alice'')
       (example_input [''DELETE'', ''SHARE''] None [] ''IMPORT'') BackgroundTaskScope_Import
       TASK_TYPE_LIST
     = Inr ()"
proof -
  let ?only = "example_input [ACTION_TYPE_DELETE] None [] ''IMPORT''"
  let ?both = "example_input [ACTION_TYPE_DELETE, ACTION_TYPE_SHARE] None [] ''IMPORT''"
  have cap: "isUserHasCapability example_task_env (example_user ''alice'') KNOWLEDGE_KNASKIMPORT"
    by code_simp
  have p1: "parse_filters example_task_env (input_filters ?only) = Inr None"
    by code_simp
  have p2: "parse_filters example_task_env (input_filters ?both) = Inr None"
    by code_simp
  have a1: "actions ?only \<noteq> [] \<and> (\<forall>a \<in> set (actions ?only). a = ACTION_TYPE_DELETE)"
    by (simp add: example_input_def)
  have a2: "\<exists>a \<in> set (actions ?both). a \<noteq> ACTION_TYPE_DELETE"
    by (simp add: example_input_def ACTION_TYPE_DELETE_def ACTION_TYPE_SHARE_def)
  show ?thesis
    using import_rejects_only_deletions [OF cap p1, THEN conjunct1, THEN mp, OF a1, of TASK_TYPE_LIST]
      import_rejects_only_deletions [OF cap p2, THEN conjunct2, THEN mp, OF a2, of TASK_TYPE_LIST]
    by (simp add: ACTION_TYPE_DELETE_def ACTION_TYPE_SHARE_def)
qed

text \<open>
  Claim C9. Scope Import, the principal holding the import capability, the filters of
  the request absent or parsed: a request with no action at all is denied with the
  unsupported-operation error, since \<^verbatim>\<open>every\<close> holds of the empty array.
\<close>

theorem import_rejects_empty_actions:
  assumes cap: "isUserHasCapability env user KNOWLEDGE_KNASKIMPORT"
    and parsed: "parse_filters env (input_filters input) = Inr b"
    and empty: "actions input = []"
  shows "checkActionValidity env user input BackgroundTaskScope_Import taskType
           = Inl (UnsupportedError ''Background tasks of scope Import can only be deletions.'')"
  using cap empty by (simp add: scope_import [OF parsed] check_import_def)

theorem import_rejects_empty_actions_witness:
  "checkActionValidity example_task_env (example_user ''alice'')
       (example_input [] None [''file-1''] ''IMPORT'') BackgroundTaskScope_Import TASK_TYPE_LIST
     = Inl (UnsupportedError ''Background tasks of scope Import can only be deletions.'')"
proof -
  let ?input = "example_input [] None [''file-1''] ''IMPORT''"
  have cap: "isUserHasCapability example_task_env (example_user ''alice'') KNOWLEDGE_KNASKIMPORT"
    by code_simp
  have p: "parse_filters example_task_env (input_filters ?input) = Inr None"
    by code_simp
  have a: "actions ?input = []"
    by (simp add: example_input_def)
  show ?thesis
    using import_rejects_empty_actions [OF cap p a] .
qed

text \<open>
  The check reads the \<^verbatim>\<open>filters\<close> array of the group itself and never the groups nested in
  \<^verbatim>\<open>filterGroups\<close>. A query whose only filter on \<^verbatim>\<open>entity_type\<close>, with the vocabulary type
  as its value, sits in a nested group targets the vocabulary type and is allowed, here
  for a principal with the update and delete capabilities.
\<close>

theorem nested_vocabulary_filter_is_allowed:
  "parse_filters example_task_env (Some ''nested vocabulary'') = Inr (Some nested_vocabulary)
   \<and> ENTITY_TYPE_VOCABULARY example_task_env \<in> set (targeted_entity_types nested_vocabulary)
   \<and> checkActionValidity example_task_env (example_user ''alice'')
         (example_input [''DELETE''] (Some ''nested vocabulary'') [] ''KNOWLEDGE'')
         BackgroundTaskScope_Knowledge TASK_TYPE_QUERY
       = Inr ()"
  by code_simp

text \<open>
  Claim C7, as amended. Scope Knowledge, task type QUERY: when a value of an
  \<^verbatim>\<open>entity_type\<close> filter of the group itself (a member of its own \<^verbatim>\<open>filters\<close> array, the
  group being non-empty) is the vocabulary type, the request is denied with a forbidden
  error, whatever the capabilities of the principal and whatever the other values are. A
  principal with the update and delete capabilities gets the error that the targets are
  not knowledge. Filters of nested groups are not inspected.
\<close>

theorem knowledge_query_rejects_vocabulary:
  assumes parsed: "parse_filters env (input_filters input) = Inr b"
    and vocabulary: "ENTITY_TYPE_VOCABULARY env
                       \<in> set (typeFiltersValues_of (typeFilters_of (filters_of env b)))"
  shows "(\<exists>m. checkActionValidity env user input BackgroundTaskScope_Knowledge TASK_TYPE_QUERY
                = Inl (ForbiddenAccess m))
         \<and> (isUserHasCapability env user KNOWLEDGE_UPDATE
              \<and> isUserHasCapability env user KNOWLEDGE_DELETE
            \<longrightarrow> checkActionValidity env user input BackgroundTaskScope_Knowledge TASK_TYPE_QUERY
                  = Inl not_knowledge)"
proof -
  have "list_ex (\<lambda>t. t = ENTITY_TYPE_VOCABULARY env)
          (typeFiltersValues_of (typeFilters_of (filters_of env b)))"
    using vocabulary by (simp add: list_ex_iff)
  then show ?thesis
    by (simp add: scope_knowledge [OF parsed] check_knowledge_def Let_def not_knowledge_def)
qed

theorem knowledge_query_rejects_vocabulary_witness:
  "typeFiltersValues_of (typeFilters_of (filters_of example_task_env
       (Some (type_filters [''Report'', ''Vocabulary''])))) = [''Report'', ''Vocabulary'']
   \<and> checkActionValidity example_task_env (example_user ''alice'')
         (example_input [''DELETE''] (Some ''reports and vocabularies'') [] ''KNOWLEDGE'')
         BackgroundTaskScope_Knowledge TASK_TYPE_QUERY
       = Inl not_knowledge"
proof -
  let ?input = "example_input [''DELETE''] (Some ''reports and vocabularies'') [] ''KNOWLEDGE''"
  let ?b = "Some (type_filters [''Report'', ''Vocabulary''])"
  have p: "parse_filters example_task_env (input_filters ?input) = Inr ?b"
    by code_simp
  have vs: "typeFiltersValues_of (typeFilters_of (filters_of example_task_env ?b))
              = [''Report'', ''Vocabulary'']"
    by code_simp
  have v: "ENTITY_TYPE_VOCABULARY example_task_env
             \<in> set (typeFiltersValues_of (typeFilters_of (filters_of example_task_env ?b)))"
    unfolding vs by (simp add: example_task_env_def)
  have c: "isUserHasCapability example_task_env (example_user ''alice'') KNOWLEDGE_UPDATE
           \<and> isUserHasCapability example_task_env (example_user ''alice'') KNOWLEDGE_DELETE"
    by code_simp
  show ?thesis
    using knowledge_query_rejects_vocabulary [OF p v, THEN conjunct2, THEN mp, OF c] vs by simp
qed

text \<open>
  Claim C8. Scope User, task type LIST: if an identifier does not resolve as a
  notification the request is denied; if all resolve, the request is allowed exactly when
  the owners of the notifications are the principal alone, or the principal holds the
  capability to manage accesses, and is denied with a forbidden error otherwise.
\<close>

theorem user_list_requires_owner_or_capability:
  assumes parsed: "parse_filters env (input_filters input) = Inr b"
  shows "(None \<in> set (map (\<lambda>i. storeLoadById env user i (ENTITY_TYPE_NOTIFICATION env))
                         (ids input))
            \<longrightarrow> checkActionValidity env user input BackgroundTaskScope_User TASK_TYPE_LIST
                  = Inl not_notifications)
         \<and> (\<forall>os. map (\<lambda>i. storeLoadById env user i (ENTITY_TYPE_NOTIFICATION env)) (ids input)
                   = map Some os
            \<longrightarrow> checkActionValidity env user input BackgroundTaskScope_User TASK_TYPE_LIST
                  = (if set (map user_id os) = {user_ident user}
                        \<or> isUserHasCapability env user SETTINGS_SET_ACCESSES
                     then Inr () else Inl (ForbiddenAccess None)))"
proof -
  have l: "check_user env user input fs tfs TASK_TYPE_LIST =
             (case those (map (\<lambda>i. storeLoadById env user i (ENTITY_TYPE_NOTIFICATION env))
                            (ids input)) of
                None \<Rightarrow> Inl not_notifications
              | Some os \<Rightarrow>
                  if isUserHasCapability env user SETTINGS_SET_ACCESSES
                     \<or> (length (uniq (map user_id os)) = 1
                        \<and> user_ident user \<in> set (uniq (map user_id os)))
                  then Inr () else Inl (ForbiddenAccess None))" for fs tfs
    by (simp add: check_user_def Let_def TASK_TYPE_QUERY_def TASK_TYPE_LIST_def
          split: option.splits)
  show ?thesis
    unfolding scope_user [OF parsed] l single_owner_iff
    by (auto simp: those_map_Some those_None_iff [THEN iffD2] simp del: set_map)
qed

theorem user_list_requires_owner_or_capability_witness:
  "checkActionValidity example_task_env (example_user ''alice'')
       (example_input [''DELETE''] None [''notification-1'', ''notification-4''] ''USER'')
       BackgroundTaskScope_User TASK_TYPE_LIST
     = Inl not_notifications
   \<and> checkActionValidity example_task_env (example_user ''alice'')
       (example_input [''DELETE''] None [''notification-1'', ''notification-2''] ''USER'')
       BackgroundTaskScope_User TASK_TYPE_LIST
     = Inr ()
   \<and> checkActionValidity example_task_env (example_user ''alice'')
       (example_input [''DELETE''] None [''notification-1'', ''notification-3''] ''USER'')
       BackgroundTaskScope_User TASK_TYPE_LIST
     = Inl (ForbiddenAccess None)
   \<and> checkActionValidity example_task_env (example_user ''admin'')
       (example_input [''DELETE''] None [''notification-1'', ''notification-3''] ''USER'')
       BackgroundTaskScope_User TASK_TYPE_LIST
     = Inr ()"
proof -
  let ?missing = "example_input [''DELETE''] None [''notification-1'', ''notification-4''] ''USER''"
  let ?own = "example_input [''DELETE''] None [''notification-1'', ''notification-2''] ''USER''"
  let ?two = "example_input [''DELETE''] None [''notification-1'', ''notification-3''] ''USER''"
  let ?load = "\<lambda>u input. map (\<lambda>i. storeLoadById example_task_env (example_user u) i
                                 (ENTITY_TYPE_NOTIFICATION example_task_env)) (ids input)"
  let ?n = "example_object ''Notification''"
  have p: "parse_filters example_task_env (input_filters ?missing) = Inr None"
    "parse_filters example_task_env (input_filters ?own) = Inr None"
    "parse_filters example_task_env (input_filters ?two) = Inr None"
    by code_simp+
  have m: "None \<in> set (?load ''alice'' ?missing)"
    by code_simp
  have o: "?load ''alice'' ?own = map Some [?n ''alice'', ?n ''alice'']"
    by code_simp
  have t: "?load ''alice'' ?two = map Some [?n ''alice'', ?n ''bob'']"
    "?load ''admin'' ?two = map Some [?n ''alice'', ?n ''bob'']"
    by code_simp+
  have c: "\<not> isUserHasCapability example_task_env (example_user ''alice'') SETTINGS_SET_ACCESSES"
    "isUserHasCapability example_task_env (example_user ''admin'') SETTINGS_SET_ACCESSES"
    by code_simp+
  have s: "set (map user_id [?n ''alice'', ?n ''alice'']) = {user_ident (example_user ''alice'')}"
    "set (map user_id [?n ''alice'', ?n ''bob'']) \<noteq> {user_ident (example_user ''alice'')}"
    by (auto simp: example_object_def example_user_def)
  show ?thesis
    using user_list_requires_owner_or_capability [OF p(1), THEN conjunct1, THEN mp, OF m]
      user_list_requires_owner_or_capability [OF p(2), THEN conjunct2, THEN spec, THEN mp, OF o]
      user_list_requires_owner_or_capability [OF p(3), THEN conjunct2, THEN spec, THEN mp, OF t(1)]
      user_list_requires_owner_or_capability [OF p(3), THEN conjunct2, THEN spec, THEN mp, OF t(2)]
      c s
    by simp
qed

text \<open>
  Claim C10. Scope Knowledge, the principal holding the update capability, and the
  delete capability if a deletion-related action is asked for: a QUERY whose filters hold
  no \<^verbatim>\<open>entity_type\<close> value is allowed, and so is a LIST with no identifier.
\<close>

theorem knowledge_allows_empty_targets:
  assumes update: "isUserHasCapability env user KNOWLEDGE_UPDATE"
    and delete: "filter isDeleteRestrictedAction (actions input) \<noteq> []
                   \<longrightarrow> isUserHasCapability env user KNOWLEDGE_DELETE"
    and parsed: "parse_filters env (input_filters input) = Inr b"
  shows "(typeFiltersValues_of (typeFilters_of (filters_of env b)) = []
            \<longrightarrow> checkActionValidity env user input BackgroundTaskScope_Knowledge TASK_TYPE_QUERY
                  = Inr ())
         \<and> (ids input = []
            \<longrightarrow> checkActionValidity env user input BackgroundTaskScope_Knowledge TASK_TYPE_LIST
                  = Inr ())"
  using update delete
  by (auto simp: scope_knowledge [OF parsed] check_knowledge_def Let_def
        TASK_TYPE_QUERY_def TASK_TYPE_LIST_def)

theorem knowledge_allows_empty_targets_witness:
  "checkActionValidity example_task_env (example_user ''alice'')
       (example_input [''DELETE''] (Some ''no types'') [''report-1''] ''KNOWLEDGE'')
       BackgroundTaskScope_Knowledge TASK_TYPE_QUERY
     = Inr ()
   \<and> checkActionValidity example_task_env (example_user ''alice'')
       (example_input [''DELETE''] None [] ''KNOWLEDGE'')
       BackgroundTaskScope_Knowledge TASK_TYPE_LIST
     = Inr ()"
proof -
  let ?query = "example_input [''DELETE''] (Some ''no types'') [''report-1''] ''KNOWLEDGE''"
  let ?list = "example_input [''DELETE''] None [] ''KNOWLEDGE''"
  let ?b = "Some (FilterGroup (Some ''and'') (Some []) [])"
  have u: "isUserHasCapability example_task_env (example_user ''alice'') KNOWLEDGE_UPDATE"
    by code_simp
  have d: "isUserHasCapability example_task_env (example_user ''alice'') KNOWLEDGE_DELETE"
    by code_simp
  have p1: "parse_filters example_task_env (input_filters ?query) = Inr ?b"
    by code_simp
  have p2: "parse_filters example_task_env (input_filters ?list) = Inr None"
    by code_simp
  have e1: "typeFiltersValues_of (typeFilters_of (filters_of example_task_env ?b)) = []"
    by code_simp
  have e2: "ids ?list = []"
    by (simp add: example_input_def)
  show ?thesis
    using knowledge_allows_empty_targets [OF u _ p1, THEN conjunct1, THEN mp, OF _ e1]
      knowledge_allows_empty_targets [OF u _ p2, THEN conjunct2, THEN mp, OF _ e2] d
    by blast
qed

section \<open>Properties of the creation of a list task\<close>

text \<open>
  Claim C3. If the authorization check denies, \<^verbatim>\<open>createListTask\<close> fails with the error of
  the check and nothing is published or indexed. If \<^verbatim>\<open>createListTask\<close> returns a task,
  the check had allowed the request, and exactly two things happened, in this order: the
  user action carrying the task was published, then the task was indexed.
\<close>

theorem createListTask_checks_then_publishes_then_indexes:
  "(checkActionValidity env user input (scope input) TASK_TYPE_LIST = Inl err
      \<longrightarrow> createListTask env w user input = (Inl err, w))
   \<and> (createListTask env w user input = (Inr t, w')
      \<longrightarrow> checkActionValidity env user input (scope input) TASK_TYPE_LIST = Inr ()
          \<and> (\<exists>a. context_input a = t \<and> w' = w @ [PublishUserAction a None, ElIndex t None]))"
  by (auto simp: createListTask_def Let_def split: sum.splits option.splits)

theorem createListTask_checks_then_publishes_then_indexes_witness:
  "createListTask example_task_env [] (example_user ''alice'')
       (example_input [''DELETE''] None [''missing''] ''KNOWLEDGE'')
     = (Inl not_knowledge, [])
   \<and> checkActionValidity example_task_env (example_user ''alice'')
         (example_input [''DELETE''] None [''report-1''] ''KNOWLEDGE'') ''KNOWLEDGE'' TASK_TYPE_LIST
       = Inr ()
   \<and> createListTask example_task_env [] (example_user ''alice'')
         (example_input [''DELETE''] None [''report-1''] ''KNOWLEDGE'')
       = (Inr example_list_task,
          [PublishUserAction example_user_action None, ElIndex example_list_task None])"
proof -
  let ?denied = "example_input [''DELETE''] None [''missing''] ''KNOWLEDGE''"
  let ?allowed = "example_input [''DELETE''] None [''report-1''] ''KNOWLEDGE''"
  have d: "checkActionValidity example_task_env (example_user ''alice'') ?denied (scope ?denied)
             TASK_TYPE_LIST = Inl not_knowledge"
    by code_simp
  have c: "createListTask example_task_env [] (example_user ''alice'') ?allowed
             = (Inr example_list_task,
                [PublishUserAction example_user_action None, ElIndex example_list_task None])"
    by code_simp
  have s: "scope ?allowed = ''KNOWLEDGE''"
    by (simp add: example_input_def)
  show ?thesis
    using createListTask_checks_then_publishes_then_indexes [THEN conjunct1, THEN mp, OF d] createListTask_checks_then_publishes_then_indexes [THEN conjunct2, THEN mp, OF c] c
    unfolding s by blast
qed

end
